theory Spec2Isabelle
  imports Main
begin

section \<open>The student record (models/student.go)\<close>

text \<open>
  A \<open>time.Time\<close> is an instant counted from the zero time: \<open>0\<close> is Go's zero value
  (\<open>IsZero\<close>). \<open>gorm.DeletedAt\<close> is a nullable time: \<open>None\<close> is SQL NULL.
  \<open>ID\<close> is Go's \<open>uint\<close> and \<open>Age\<close> Go's \<open>int\<close>; the handlers do no arithmetic
  on either, only comparisons, so no wrap-around can occur and they are \<open>nat\<close> and \<open>int\<close>.
  Strings are byte lists, as Go's are.
\<close>

type_synonym time = nat

record Student =
  ID :: nat
  Name :: string
  Age :: int
  Gender :: string
  Email :: string
  Phone :: string
  Major :: string
  Grade :: string
  CreatedAt :: time
  UpdatedAt :: time
  DeletedAt :: "time option"

text \<open>The two literals of \<open>oneof\<close> on \<open>Gender\<close>, in UTF-8 (U+7537 and U+5973).\<close>

definition gender_male :: string where
  "gender_male = [CHR 0xE7, CHR 0x94, CHR 0xB7]"

definition gender_female :: string where
  "gender_female = [CHR 0xE5, CHR 0xA5, CHR 0xB3]"

section \<open>Request binding (the \<open>json\<close> and \<open>binding\<close> tags of the struct)\<close>

text \<open>
  \<open>ShouldBindJSON\<close> decodes the body into a \<open>Student\<close> and then runs the validator on
  the \<open>binding\<close> tags. A body that does not decode (bad JSON, a field of the wrong JSON
  type, a number out of range) is \<open>Malformed\<close>; a body that decodes is \<open>Json s\<close>, where
  a key the body leaves out has Go's zero value in \<open>s\<close>. The keys are those of the
  \<open>json\<close> tags: \<open>id\<close>, \<open>created_at\<close> and \<open>updated_at\<close> are among them, and
  \<open>DeletedAt\<close> is tagged \<open>json:"-"\<close>, so it is never read from the body.

  The validator visits the fields in the order of the struct and reports, for each field,
  the first tag that fails. \<open>required\<close> fails on the zero value. The shape test of the
  \<open>email\<close> tag belongs to the validator library and is a parameter \<open>email_ok\<close> here.
\<close>

datatype request_body = Malformed | Json Student

datatype bind_error = DecodeError | ValidationErrors "(string \<times> string) list"

definition check_required :: "string \<Rightarrow> string \<Rightarrow> (string \<times> string) list" where
  "check_required field v = (if v = [] then [(field, ''required'')] else [])"

definition check_Age :: "int \<Rightarrow> (string \<times> string) list" where
  "check_Age a =
     (if a = 0 then [(''Age'', ''required'')]
      else if a < 1 then [(''Age'', ''min'')]
      else if a > 150 then [(''Age'', ''max'')] else [])"

definition check_Gender :: "string \<Rightarrow> (string \<times> string) list" where
  "check_Gender g =
     (if g = [] then [(''Gender'', ''required'')]
      else if g \<noteq> gender_male \<and> g \<noteq> gender_female then [(''Gender'', ''oneof'')]
      else [])"

definition check_Email :: "(string \<Rightarrow> bool) \<Rightarrow> string \<Rightarrow> (string \<times> string) list" where
  "check_Email email_ok e =
     (if e = [] then [(''Email'', ''required'')]
      else if \<not> email_ok e then [(''Email'', ''email'')] else [])"

definition validate :: "(string \<Rightarrow> bool) \<Rightarrow> Student \<Rightarrow> (string \<times> string) list" where
  "validate email_ok s =
     check_required ''Name'' (Name s) @
     check_Age (Age s) @
     check_Gender (Gender s) @
     check_Email email_ok (Email s) @
     check_required ''Phone'' (Phone s) @
     check_required ''Major'' (Major s) @
     check_required ''Grade'' (Grade s)"

definition ShouldBindJSON :: "(string \<Rightarrow> bool) \<Rightarrow> request_body \<Rightarrow> bind_error + Student" where
  "ShouldBindJSON email_ok b =
     (case b of
        Malformed \<Rightarrow> Inl DecodeError
      | Json s \<Rightarrow>
          (let s' = s\<lparr>DeletedAt := None\<rparr> in
           case validate email_ok s' of
             [] \<Rightarrow> Inr s'
           | e # es \<Rightarrow> Inl (ValidationErrors (e # es))))"

section \<open>The path parameter (\<open>strconv.ParseUint(c.Param("id"), 10, 32)\<close>)\<close>

definition is_digit :: "char \<Rightarrow> bool" where
  "is_digit c = (48 \<le> (of_char c :: nat) \<and> (of_char c :: nat) \<le> 57)"

definition digit_val :: "char \<Rightarrow> nat" where
  "digit_val c = of_char c - 48"

text \<open>Base 10, 32 bits: digits only, at least one, and a value below \<open>2 ^ 32\<close>.\<close>

definition ParseUint :: "string \<Rightarrow> nat option" where
  "ParseUint p =
     (if p \<noteq> [] \<and> list_all is_digit p
      then (let n = fold (\<lambda>c a. 10 * a + digit_val c) p 0
            in if n < 2 ^ 32 then Some n else None)
      else None)"

section \<open>The table \<open>students\<close> (config/database.go and the \<open>gorm\<close> tags)\<close>

text \<open>
  The database is the list of the rows of the table. SQL fixes no order for a
  \<open>SELECT\<close> without \<open>ORDER BY\<close>; the model keeps the rows in the order of their
  insertion and a query returns them in that order. A soft-deleted row stays in the table
  with \<open>deleted_at\<close> set. Each operation below is the SQL statement
  the handler's GORM call issues against a model with a \<open>gorm.DeletedAt\<close> field, together
  with the two constraints of the schema: the primary key \<open>id\<close> and the unique index on
  \<open>email\<close> (tag \<open>uniqueIndex\<close>), which is an index over the column and so spans every row
  of the table. The \<open>size\<close> tags give no constraint: the SQLite dialect stores every
  string column as \<open>text\<close>. Failures of the connection or the disk are outside the model.
\<close>

datatype db_error =
    ErrRecordNotFound
  | ErrUniqueConstraint string
  | ErrMissingWhereClause

text \<open>\<open>db.First(&student, id)\<close>:
  \<open>SELECT * FROM students WHERE id = ? AND deleted_at IS NULL ORDER BY id LIMIT 1\<close>.\<close>

definition db_First :: "Student list \<Rightarrow> nat \<Rightarrow> db_error + Student" where
  "db_First rows n =
     (case find (\<lambda>r. ID r = n \<and> DeletedAt r = None) rows of
        None \<Rightarrow> Inl ErrRecordNotFound
      | Some r \<Rightarrow> Inr r)"

text \<open>The id an insert without an id receives: one more than the largest id in the table.\<close>

definition next_id :: "Student list \<Rightarrow> nat" where
  "next_id rows = Suc (fold max (map ID rows) 0)"

text \<open>\<open>db.Create(&student)\<close>: an \<open>INSERT\<close> of the struct. GORM leaves a non-zero primary
  key as it is and fills \<open>CreatedAt\<close> and \<open>UpdatedAt\<close> with the current time only where
  they are zero. The result is the struct as written back and the new table.\<close>

definition db_Create :: "time \<Rightarrow> Student list \<Rightarrow> Student \<Rightarrow> db_error + (Student \<times> Student list)" where
  "db_Create now rows s =
     (let s' = s\<lparr>ID := (if ID s = 0 then next_id rows else ID s),
                 CreatedAt := (if CreatedAt s = 0 then now else CreatedAt s),
                 UpdatedAt := (if UpdatedAt s = 0 then now else UpdatedAt s)\<rparr>
      in if list_ex (\<lambda>r. ID r = ID s') rows then Inl (ErrUniqueConstraint ''students.id'')
         else if list_ex (\<lambda>r. Email r = Email s') rows
           then Inl (ErrUniqueConstraint ''students.email'')
         else Inr (s', rows @ [s']))"

text \<open>\<open>db.Model(&student).Updates(updateData)\<close> with a struct: an \<open>UPDATE\<close> that sets the
  non-zero fields of \<open>updateData\<close> and \<open>updated_at\<close>, on the live rows whose id is the
  model's. A model with a zero primary key gives no \<open>WHERE\<close> clause, which GORM refuses.\<close>

definition assign_fields :: "time \<Rightarrow> Student \<Rightarrow> Student \<Rightarrow> Student" where
  "assign_fields now u r =
     r\<lparr>ID := (if ID u = 0 then ID r else ID u),
       Name := (if Name u = [] then Name r else Name u),
       Age := (if Age u = 0 then Age r else Age u),
       Gender := (if Gender u = [] then Gender r else Gender u),
       Email := (if Email u = [] then Email r else Email u),
       Phone := (if Phone u = [] then Phone r else Phone u),
       Major := (if Major u = [] then Major r else Major u),
       Grade := (if Grade u = [] then Grade r else Grade u),
       CreatedAt := (if CreatedAt u = 0 then CreatedAt r else CreatedAt u),
       UpdatedAt := now\<rparr>"

definition db_Updates ::
    "time \<Rightarrow> Student list \<Rightarrow> Student \<Rightarrow> Student \<Rightarrow> db_error + (Student \<times> Student list)" where
  "db_Updates now rows student u =
     (if ID student = 0 then Inl ErrMissingWhereClause
      else (let target = (\<lambda>r. ID r = ID student \<and> DeletedAt r = None);
                others = filter (\<lambda>r. \<not> target r) rows
            in if ID u \<noteq> 0 \<and> list_ex (\<lambda>r. ID r = ID u) others
                 then Inl (ErrUniqueConstraint ''students.id'')
               else if Email u \<noteq> [] \<and> list_ex (\<lambda>r. Email r = Email u) others
                 then Inl (ErrUniqueConstraint ''students.email'')
               else Inr (assign_fields now u student,
                         map (\<lambda>r. if target r then assign_fields now u r else r) rows)))"

text \<open>\<open>db.Delete(&student)\<close> on a model with \<open>gorm.DeletedAt\<close>:
  \<open>UPDATE students SET deleted_at = now WHERE id = ? AND deleted_at IS NULL\<close>.
  As for an update, GORM refuses the statement when the primary key of the model is zero.
  No create stores the id 0 (\<open>db_Create_id_nonzero\<close> below).\<close>

definition db_Delete :: "time \<Rightarrow> Student list \<Rightarrow> Student \<Rightarrow> db_error + Student list" where
  "db_Delete now rows student =
     (if ID student = 0 then Inl ErrMissingWhereClause
      else Inr (map (\<lambda>r. if ID r = ID student \<and> DeletedAt r = None
                         then r\<lparr>DeletedAt := Some now\<rparr> else r) rows))"

subsection \<open>The \<open>LIKE\<close> operator\<close>

text \<open>
  SQLite's \<open>LIKE\<close>: in the pattern \<open>%\<close> stands for any sequence of characters, \<open>_\<close> for
  any one character, and every other character for itself, where the letters A to Z
  match in either case. The handler gives no \<open>ESCAPE\<close> clause, so no character of
  the pattern can be taken literally once it is \<open>%\<close> or \<open>_\<close>. The model matches the
  bytes of the strings, which for \<open>_\<close> facing a multi-byte character is one byte where
  SQLite takes the whole character.
\<close>

text \<open>The code of a character after the letters A to Z are folded to a to z.\<close>

definition ascii_lower :: "char \<Rightarrow> nat" where
  "ascii_lower c = (let n = of_char c in if 65 \<le> n \<and> n \<le> 90 then n + 32 else n)"

fun like :: "string \<Rightarrow> string \<Rightarrow> bool" where
  "like [] s = (s = [])"
| "like (p # ps) [] = (p = CHR ''%'' \<and> like ps [])"
| "like (p # ps) (c # cs) =
     (if p = CHR ''%'' then like ps (c # cs) \<or> like (p # ps) cs
      else (p = CHR ''_'' \<or> ascii_lower p = ascii_lower c) \<and> like ps cs)"

section \<open>The handlers (controllers/student_controller.go)\<close>

text \<open>
  A response is the status code and the \<open>gin.H\<close> body. An error body has the \<open>error\<close>
  text and, where the handler adds \<open>message: err.Error()\<close>, the error it came from.
  A handler that writes takes the current time and returns the new table.
\<close>

datatype failure = BindFailure bind_error | DbFailure db_error

datatype payload =
    ErrorBody string "failure option"
  | StudentList "Student list" nat
  | StudentData "string option" Student
  | Message string

record Response =
  status :: nat
  body :: payload

definition GetAllStudents :: "Student list \<Rightarrow> Response" where
  "GetAllStudents rows =
     (let students = filter (\<lambda>r. DeletedAt r = None) rows
      in \<lparr>status = 200, body = StudentList students (length students)\<rparr>)"

definition GetStudentByID :: "string \<Rightarrow> Student list \<Rightarrow> Response" where
  "GetStudentByID p rows =
     (case ParseUint p of
        None \<Rightarrow> \<lparr>status = 400, body = ErrorBody ''Invalid student ID'' None\<rparr>
      | Some n \<Rightarrow>
          (case db_First rows n of
             Inl e \<Rightarrow> \<lparr>status = 404, body = ErrorBody ''Student not found'' None\<rparr>
           | Inr student \<Rightarrow> \<lparr>status = 200, body = StudentData None student\<rparr>))"

definition CreateStudent ::
    "(string \<Rightarrow> bool) \<Rightarrow> time \<Rightarrow> request_body \<Rightarrow> Student list \<Rightarrow> Response \<times> Student list" where
  "CreateStudent email_ok now b rows =
     (case ShouldBindJSON email_ok b of
        Inl err \<Rightarrow>
          (\<lparr>status = 400, body = ErrorBody ''Invalid input data'' (Some (BindFailure err))\<rparr>, rows)
      | Inr student \<Rightarrow>
          (case db_Create now rows student of
             Inl e \<Rightarrow>
               (\<lparr>status = 500,
                 body = ErrorBody ''Failed to create student'' (Some (DbFailure e))\<rparr>, rows)
           | Inr (student', rows') \<Rightarrow>
               (\<lparr>status = 201,
                 body = StudentData (Some ''Student created successfully'') student'\<rparr>, rows')))"

definition UpdateStudent ::
    "(string \<Rightarrow> bool) \<Rightarrow> string \<Rightarrow> time \<Rightarrow> request_body \<Rightarrow> Student list
       \<Rightarrow> Response \<times> Student list" where
  "UpdateStudent email_ok p now b rows =
     (case ParseUint p of
        None \<Rightarrow> (\<lparr>status = 400, body = ErrorBody ''Invalid student ID'' None\<rparr>, rows)
      | Some n \<Rightarrow>
          (case db_First rows n of
             Inl e \<Rightarrow> (\<lparr>status = 404, body = ErrorBody ''Student not found'' None\<rparr>, rows)
           | Inr student \<Rightarrow>
               (case ShouldBindJSON email_ok b of
                  Inl err \<Rightarrow>
                    (\<lparr>status = 400,
                      body = ErrorBody ''Invalid input data'' (Some (BindFailure err))\<rparr>, rows)
                | Inr updateData \<Rightarrow>
                    (case db_Updates now rows student updateData of
                       Inl e \<Rightarrow>
                         (\<lparr>status = 500,
                           body = ErrorBody ''Failed to update student'' (Some (DbFailure e))\<rparr>,
                          rows)
                     | Inr (student', rows') \<Rightarrow>
                         (\<lparr>status = 200,
                           body = StudentData (Some ''Student updated successfully'') student'\<rparr>,
                          rows')))))"

definition DeleteStudent :: "string \<Rightarrow> time \<Rightarrow> Student list \<Rightarrow> Response \<times> Student list" where
  "DeleteStudent p now rows =
     (case ParseUint p of
        None \<Rightarrow> (\<lparr>status = 400, body = ErrorBody ''Invalid student ID'' None\<rparr>, rows)
      | Some n \<Rightarrow>
          (case db_First rows n of
             Inl e \<Rightarrow> (\<lparr>status = 404, body = ErrorBody ''Student not found'' None\<rparr>, rows)
           | Inr student \<Rightarrow>
               (case db_Delete now rows student of
                  Inl e \<Rightarrow>
                    (\<lparr>status = 500,
                      body = ErrorBody ''Failed to delete student'' (Some (DbFailure e))\<rparr>, rows)
                | Inr rows' \<Rightarrow>
                    (\<lparr>status = 200, body = Message ''Student deleted successfully''\<rparr>, rows'))))"

text \<open>The three query parameters are \<open>c.Query\<close> strings: a parameter that is absent is \<open>""\<close>.\<close>

definition SearchStudents :: "string \<Rightarrow> string \<Rightarrow> string \<Rightarrow> Student list \<Rightarrow> Response" where
  "SearchStudents name major grade rows =
     (let q0 = (\<lambda>r. DeletedAt r = None);
          q1 = (if name \<noteq> [] then (\<lambda>r. q0 r \<and> like (''%'' @ name @ ''%'') (Name r)) else q0);
          q2 = (if major \<noteq> [] then (\<lambda>r. q1 r \<and> like (''%'' @ major @ ''%'') (Major r)) else q1);
          q3 = (if grade \<noteq> [] then (\<lambda>r. q2 r \<and> Grade r = grade) else q2);
          students = filter q3 rows
      in \<lparr>status = 200, body = StudentList students (length students)\<rparr>)"

text \<open>The \<open>data\<close> array of a list response.\<close>

fun data_of :: "Response \<Rightarrow> Student list" where
  "data_of r = (case body r of StudentList xs n \<Rightarrow> xs | _ \<Rightarrow> [])"

section \<open>What the specification calls containment\<close>

text \<open>
  The specification speaks of a name that contains the filter text, case-insensitively.
  \<open>ci_contains a s\<close> says so directly: \<open>a\<close> occurs in \<open>s\<close> as a contiguous block,
  where letters A to Z and a to z are not told apart. \<open>wildcard_free\<close> marks the
  filter texts without the two characters that \<open>LIKE\<close> reads as wildcards.
\<close>

fun ci_prefix :: "string \<Rightarrow> string \<Rightarrow> bool" where
  "ci_prefix [] s = True"
| "ci_prefix (a # as) [] = False"
| "ci_prefix (a # as) (c # cs) = (ascii_lower a = ascii_lower c \<and> ci_prefix as cs)"

fun ci_contains :: "string \<Rightarrow> string \<Rightarrow> bool" where
  "ci_contains a [] = (a = [])"
| "ci_contains a (c # cs) = (ci_prefix a (c # cs) \<or> ci_contains a cs)"


section \<open>Example data\<close>

text \<open>
  The scenario of the specification: one student, first as the request body and then as
  the row the first create stores at time 5. \<open>example_email_ok\<close> stands in for the
  validator's e-mail test in the examples.
\<close>

definition example_email_ok :: "string \<Rightarrow> bool" where
  "example_email_ok e = (CHR ''@'' \<in> set e)"

definition zero_student :: Student where
  "zero_student = \<lparr>ID = 0, Name = [], Age = 0, Gender = [], Email = [], Phone = [], Major = [],
     Grade = [], CreatedAt = 0, UpdatedAt = 0, DeletedAt = None\<rparr>"

definition zhang_san :: Student where
  "zhang_san = \<lparr>ID = 0, Name = ''Zhang San'', Age = 20, Gender = gender_male,
     Email = ''zs@example.com'', Phone = ''13800000000'', Major = ''CS'', Grade = ''2023'',
     CreatedAt = 0, UpdatedAt = 0, DeletedAt = None\<rparr>"

definition stored_zhang_san :: Student where
  "stored_zhang_san = zhang_san\<lparr>ID := 1, CreatedAt := 5, UpdatedAt := 5\<rparr>"

section \<open>Evaluation and lookup lemmas\<close>

lemmas eval_defs =
  CreateStudent_def UpdateStudent_def DeleteStudent_def GetStudentByID_def GetAllStudents_def
  SearchStudents_def ShouldBindJSON_def validate_def check_required_def check_Age_def
  check_Gender_def check_Email_def db_First_def db_Create_def db_Updates_def db_Delete_def
  assign_fields_def next_id_def ParseUint_def is_digit_def digit_val_def ascii_lower_def
  gender_male_def gender_female_def Let_def

lemmas example_defs =
  example_email_ok_def zero_student_def zhang_san_def stored_zhang_san_def

lemma find_Some_mem: "find P xs = Some x \<Longrightarrow> P x \<and> x \<in> set xs"
  by (induction xs) (auto split: if_splits)

lemma db_First_Inr:
  "db_First rows n = Inr r \<Longrightarrow> ID r = n \<and> DeletedAt r = None \<and> r \<in> set rows"
proof -
  assume a: "db_First rows n = Inr r"
  then have "find (\<lambda>r. ID r = n \<and> DeletedAt r = None) rows = Some r"
    by (cases "find (\<lambda>r. ID r = n \<and> DeletedAt r = None) rows") (simp_all add: db_First_def)
  from find_Some_mem [OF this] show ?thesis by simp
qed

lemma db_First_not_found:
  "\<not> (\<exists>r\<in>set rows. ID r = n \<and> DeletedAt r = None) \<Longrightarrow> db_First rows n = Inl ErrRecordNotFound"
proof -
  assume "\<not> (\<exists>r\<in>set rows. ID r = n \<and> DeletedAt r = None)"
  then have "find (\<lambda>r. ID r = n \<and> DeletedAt r = None) rows = None"
    by (simp add: find_None_iff)
  then show ?thesis by (simp add: db_First_def)
qed

lemma db_First_found:
  "\<exists>r\<in>set rows. ID r = n \<and> DeletedAt r = None \<Longrightarrow> \<exists>r. db_First rows n = Inr r \<and> ID r = n"
proof -
  assume a: "\<exists>r\<in>set rows. ID r = n \<and> DeletedAt r = None"
  then have "find (\<lambda>r. ID r = n \<and> DeletedAt r = None) rows \<noteq> None"
    unfolding find_None_iff by blast
  then obtain r where r: "find (\<lambda>r. ID r = n \<and> DeletedAt r = None) rows = Some r" by blast
  then have "db_First rows n = Inr r" by (simp add: db_First_def)
  moreover have "ID r = n" using find_Some_mem [OF r] by simp
  ultimately show ?thesis by blast
qed

lemma parse_one: "ParseUint ''1'' = Some 1"
  by (simp add: ParseUint_def is_digit_def digit_val_def)

lemma deleted_rows_not_live:
  assumes "r \<in> set (map (\<lambda>x. if ID x = n \<and> DeletedAt x = None then x\<lparr>DeletedAt := Some now\<rparr> else x) rows)"
    and "ID r = n"
  shows "DeletedAt r \<noteq> None"
proof -
  from assms(1) obtain x where x: "x \<in> set rows"
    and r: "r = (if ID x = n \<and> DeletedAt x = None then x\<lparr>DeletedAt := Some now\<rparr> else x)"
    by (auto simp only: set_map image_iff)
  show ?thesis
  proof (cases "ID x = n \<and> DeletedAt x = None")
    case True
    then have "r = x\<lparr>DeletedAt := Some now\<rparr>" using r by simp
    then show ?thesis by simp
  next
    case False
    then have "r = x" using r by simp
    then show ?thesis using False assms(2) by simp
  qed
qed

lemma search_live:
  "r \<in> set (data_of (SearchStudents name major grade rows)) \<Longrightarrow> r \<in> set rows \<and> DeletedAt r = None"
  by (auto simp: SearchStudents_def Let_def split: if_splits)

lemma list_live:
  "r \<in> set (data_of (GetAllStudents rows)) \<Longrightarrow> r \<in> set rows \<and> DeletedAt r = None"
  by (auto simp: GetAllStudents_def Let_def)

lemma DeleteStudent_200:
  assumes "DeleteStudent p now rows = (resp, rows')" and "status resp = 200"
  shows "\<exists>n. ParseUint p = Some n \<and>
           rows' = map (\<lambda>r. if ID r = n \<and> DeletedAt r = None then r\<lparr>DeletedAt := Some now\<rparr> else r) rows"
proof (cases "ParseUint p")
  case None
  then show ?thesis using assms by (auto simp: DeleteStudent_def)
next
  case (Some n)
  show ?thesis
  proof (cases "db_First rows n")
    case (Inl e)
    then show ?thesis using assms Some by (auto simp: DeleteStudent_def)
  next
    case (Inr student)
    then have id: "ID student = n" using db_First_Inr by blast
    show ?thesis
    proof (cases "n = 0")
      case True
      then show ?thesis using assms Some Inr id by (auto simp: DeleteStudent_def db_Delete_def)
    next
      case False
      then have "rows' = map (\<lambda>r. if ID r = n \<and> DeletedAt r = None then r\<lparr>DeletedAt := Some now\<rparr> else r) rows"
        using assms Some Inr id by (auto simp: DeleteStudent_def db_Delete_def)
      then show ?thesis using Some by simp
    qed
  qed
qed

section \<open>Soft delete\<close>

text \<open>
  C4. For every table and every id: once \<open>DeleteStudent\<close> has answered 200, the lookup
  of that id answers 404 "Student not found", and the id is the id of no record in the
  result of the list handler nor in the result of the search handler, whatever the three
  filters are.
\<close>

theorem delete_then_reads_exclude:
  assumes "DeleteStudent p now rows = (resp, rows')" and "status resp = 200"
  shows "\<exists>n. ParseUint p = Some n \<and>
           GetStudentByID p rows' = \<lparr>status = 404, body = ErrorBody ''Student not found'' None\<rparr> \<and>
           n \<notin> ID ` set (data_of (GetAllStudents rows')) \<and>
           (\<forall>name major grade. n \<notin> ID ` set (data_of (SearchStudents name major grade rows')))"
proof -
  from DeleteStudent_200 [OF assms] obtain n where n: "ParseUint p = Some n"
    and rows': "rows' = map (\<lambda>r. if ID r = n \<and> DeletedAt r = None then r\<lparr>DeletedAt := Some now\<rparr> else r) rows"
    by blast
  have dead: "\<not> (\<exists>r\<in>set rows'. ID r = n \<and> DeletedAt r = None)"
    unfolding rows' using deleted_rows_not_live by blast
  have get: "GetStudentByID p rows' = \<lparr>status = 404, body = ErrorBody ''Student not found'' None\<rparr>"
    using n db_First_not_found [OF dead] by (simp add: GetStudentByID_def)
  have lst: "n \<notin> ID ` set (data_of (GetAllStudents rows'))"
    using dead list_live by blast
  have srch: "\<forall>name major grade. n \<notin> ID ` set (data_of (SearchStudents name major grade rows'))"
    using dead search_live by blast
  show ?thesis using n get lst srch by blast
qed

theorem delete_then_reads_exclude_witness:
  "DeleteStudent ''1'' 9 [stored_zhang_san] =
     (\<lparr>status = 200, body = Message ''Student deleted successfully''\<rparr>,
      [stored_zhang_san\<lparr>DeletedAt := Some 9\<rparr>]) \<and>
   (\<exists>n. ParseUint ''1'' = Some n \<and>
      GetStudentByID ''1'' [stored_zhang_san\<lparr>DeletedAt := Some 9\<rparr>] =
        \<lparr>status = 404, body = ErrorBody ''Student not found'' None\<rparr> \<and>
      n \<notin> ID ` set (data_of (GetAllStudents [stored_zhang_san\<lparr>DeletedAt := Some 9\<rparr>])) \<and>
      (\<forall>name major grade.
         n \<notin> ID ` set (data_of (SearchStudents name major grade [stored_zhang_san\<lparr>DeletedAt := Some 9\<rparr>]))))"
proof -
  have h: "DeleteStudent ''1'' 9 [stored_zhang_san] =
     (\<lparr>status = 200, body = Message ''Student deleted successfully''\<rparr>,
      [stored_zhang_san\<lparr>DeletedAt := Some 9\<rparr>])"
    by (simp add: DeleteStudent_def parse_one db_First_def db_Delete_def stored_zhang_san_def
        zhang_san_def)
  show ?thesis using h delete_then_reads_exclude [OF h] by simp
qed

text \<open>
  C7. For every id that parses, is not zero and names a live row: the first delete
  answers 200 and sets \<open>deleted_at\<close> of the row to the time of the request, and a second
  delete of the same id, at any later time, answers 404 "Student not found" and leaves
  the table as it is.
\<close>

theorem second_delete_not_found:
  assumes "ParseUint p = Some n" and "n \<noteq> 0"
    and "\<exists>r\<in>set rows. ID r = n \<and> DeletedAt r = None"
  shows "\<exists>rows'. DeleteStudent p now rows =
             (\<lparr>status = 200, body = Message ''Student deleted successfully''\<rparr>, rows') \<and>
           rows' = map (\<lambda>r. if ID r = n \<and> DeletedAt r = None
                             then r\<lparr>DeletedAt := Some now\<rparr> else r) rows \<and>
           DeleteStudent p now' rows' =
             (\<lparr>status = 404, body = ErrorBody ''Student not found'' None\<rparr>, rows')"
proof -
  define rows' where "rows' = map (\<lambda>r. if ID r = n \<and> DeletedAt r = None
                             then r\<lparr>DeletedAt := Some now\<rparr> else r) rows"
  from db_First_found [OF assms(3)] obtain r where r: "db_First rows n = Inr r" "ID r = n"
    by blast
  have first: "DeleteStudent p now rows =
      (\<lparr>status = 200, body = Message ''Student deleted successfully''\<rparr>, rows')"
    using assms(1,2) r by (simp add: DeleteStudent_def db_Delete_def rows'_def)
  have dead: "\<not> (\<exists>r\<in>set rows'. ID r = n \<and> DeletedAt r = None)"
    unfolding rows'_def using deleted_rows_not_live by blast
  have second: "DeleteStudent p now' rows' =
      (\<lparr>status = 404, body = ErrorBody ''Student not found'' None\<rparr>, rows')"
    using assms(1) db_First_not_found [OF dead] by (simp add: DeleteStudent_def)
  show ?thesis using first second rows'_def by blast
qed

theorem second_delete_not_found_witness:
  "DeleteStudent ''1'' 9 [stored_zhang_san] =
     (\<lparr>status = 200, body = Message ''Student deleted successfully''\<rparr>,
      [stored_zhang_san\<lparr>DeletedAt := Some 9\<rparr>]) \<and>
   DeleteStudent ''1'' 12 [stored_zhang_san\<lparr>DeletedAt := Some 9\<rparr>] =
     (\<lparr>status = 404, body = ErrorBody ''Student not found'' None\<rparr>,
      [stored_zhang_san\<lparr>DeletedAt := Some 9\<rparr>])"
proof -
  have h1: "ParseUint ''1'' = Some 1" by (rule parse_one)
  have h2: "(1::nat) \<noteq> 0" by simp
  have h3: "\<exists>r\<in>set [stored_zhang_san]. ID r = 1 \<and> DeletedAt r = None"
    by (simp add: stored_zhang_san_def zhang_san_def)
  have h4: "ID stored_zhang_san = 1 \<and> DeletedAt stored_zhang_san = None"
    by (simp add: stored_zhang_san_def zhang_san_def)
  show ?thesis using second_delete_not_found [OF h1 h2 h3, of 9 12] h4 by simp
qed

section \<open>Update\<close>

text \<open>
  C10. The update handler looks the record up before it reads the body: for every id
  that parses and names no live row, the answer is 404 "Student not found" and the table
  is unchanged, for every body, a malformed one or one that fails validation included.
\<close>

theorem update_checks_existence_first:
  assumes "ParseUint p = Some n"
    and "\<not> (\<exists>r\<in>set rows. ID r = n \<and> DeletedAt r = None)"
  shows "UpdateStudent email_ok p now b rows =
           (\<lparr>status = 404, body = ErrorBody ''Student not found'' None\<rparr>, rows)"
  using assms(1) db_First_not_found [OF assms(2)] by (simp add: UpdateStudent_def)

theorem update_checks_existence_first_witness:
  "UpdateStudent example_email_ok ''1'' 12 Malformed [stored_zhang_san\<lparr>DeletedAt := Some 9\<rparr>] =
     (\<lparr>status = 404, body = ErrorBody ''Student not found'' None\<rparr>,
      [stored_zhang_san\<lparr>DeletedAt := Some 9\<rparr>])"
proof -
  have h1: "ParseUint ''1'' = Some 1" by (rule parse_one)
  have h2: "\<not> (\<exists>r\<in>set [stored_zhang_san\<lparr>DeletedAt := Some 9\<rparr>]. ID r = 1 \<and> DeletedAt r = None)"
    by simp
  show ?thesis using update_checks_existence_first [OF h1 h2] by simp
qed

text \<open>
  C3. A body that carries only \<open>age\<close> does not get as far as the update. The update
  handler binds the body to the same struct as create, whose \<open>binding\<close> tags make all
  seven fields \<open>required\<close>: for the live record 1 and the body \<open>{age: 21}\<close> the answer is
  400 "Invalid input data", with a \<open>required\<close> error on each of the six other fields,
  and the row keeps its age and its \<open>updated_at\<close>.
\<close>

theorem update_age_only_is_400:
  "UpdateStudent example_email_ok ''1'' 9 (Json (zero_student\<lparr>Age := 21\<rparr>)) [stored_zhang_san] =
     (\<lparr>status = 400,
       body = ErrorBody ''Invalid input data''
                (Some (BindFailure (ValidationErrors
                   [(''Name'', ''required''), (''Gender'', ''required''), (''Email'', ''required''),
                    (''Phone'', ''required''), (''Major'', ''required''), (''Grade'', ''required'')])))\<rparr>,
      [stored_zhang_san])"
  by (simp add: eval_defs example_defs)

section \<open>Validation on create\<close>

lemma check_required_fields: "fst ` set (check_required f v) \<subseteq> {f}"
  by (auto simp: check_required_def)

lemma check_Gender_fields: "fst ` set (check_Gender g) \<subseteq> {''Gender''}"
  by (auto simp: check_Gender_def)

lemma check_Email_fields: "fst ` set (check_Email email_ok e) \<subseteq> {''Email''}"
  by (auto simp: check_Email_def)

lemma check_Age_fields: "(''Age'' \<in> fst ` set (check_Age a)) = (a < 1 \<or> 150 < a)"
  by (auto simp: check_Age_def)

lemma validate_age_field:
  "(''Age'' \<in> fst ` set (validate email_ok s)) = (Age s < 1 \<or> 150 < Age s)"
proof -
  have "''Age'' \<notin> fst ` set (check_required ''Name'' (Name s))"
    and "''Age'' \<notin> fst ` set (check_required ''Phone'' (Phone s))"
    and "''Age'' \<notin> fst ` set (check_required ''Major'' (Major s))"
    and "''Age'' \<notin> fst ` set (check_required ''Grade'' (Grade s))"
    and "''Age'' \<notin> fst ` set (check_Gender (Gender s))"
    and "''Age'' \<notin> fst ` set (check_Email email_ok (Email s))"
    using check_required_fields check_Gender_fields check_Email_fields by fastforce+
  then show ?thesis
    unfolding validate_def set_append image_Un Un_iff using check_Age_fields by simp
qed

lemma bind_rejects:
  "validate email_ok (s\<lparr>DeletedAt := None\<rparr>) \<noteq> [] \<Longrightarrow>
   CreateStudent email_ok now (Json s) rows =
     (\<lparr>status = 400,
       body = ErrorBody ''Invalid input data''
                (Some (BindFailure (ValidationErrors (validate email_ok (s\<lparr>DeletedAt := None\<rparr>)))))\<rparr>,
      rows)"
  by (cases "validate email_ok (s\<lparr>DeletedAt := None\<rparr>)")
     (simp_all add: CreateStudent_def ShouldBindJSON_def Let_def)

text \<open>
  C6. The age bounds are inclusive, 1 to 150. For every create body whose age is below 1
  or above 150 (0 and 151 among them) the handler answers 400 with the validation errors,
  an error on \<open>Age\<close> among them, and the table is unchanged; for every body whose age
  is from 1 to 150 (1 and 150 among them) validation reports no error on \<open>Age\<close>.
\<close>

theorem age_bounds_inclusive:
  "(Age b < 1 \<or> 150 < Age b \<longrightarrow>
      fst (CreateStudent email_ok now (Json b) rows) =
        \<lparr>status = 400,
         body = ErrorBody ''Invalid input data''
                  (Some (BindFailure (ValidationErrors (validate email_ok (b\<lparr>DeletedAt := None\<rparr>)))))\<rparr> \<and>
      snd (CreateStudent email_ok now (Json b) rows) = rows \<and>
      ''Age'' \<in> fst ` set (validate email_ok (b\<lparr>DeletedAt := None\<rparr>))) \<and>
   (1 \<le> Age b \<and> Age b \<le> 150 \<longrightarrow>
      ''Age'' \<notin> fst ` set (validate email_ok (b\<lparr>DeletedAt := None\<rparr>)))"
proof -
  have age: "(''Age'' \<in> fst ` set (validate email_ok (b\<lparr>DeletedAt := None\<rparr>))) = (Age b < 1 \<or> 150 < Age b)"
    using validate_age_field [of email_ok "b\<lparr>DeletedAt := None\<rparr>"] by simp
  have "Age b < 1 \<or> 150 < Age b \<Longrightarrow> validate email_ok (b\<lparr>DeletedAt := None\<rparr>) \<noteq> []"
    using age by force
  then show ?thesis using age bind_rejects [of email_ok b now rows] by auto
qed

theorem age_bounds_inclusive_witness:
  "status (fst (CreateStudent example_email_ok 5 (Json (zhang_san\<lparr>Age := 0\<rparr>)) [])) = 400 \<and>
   snd (CreateStudent example_email_ok 5 (Json (zhang_san\<lparr>Age := 0\<rparr>)) []) = [] \<and>
   status (fst (CreateStudent example_email_ok 5 (Json (zhang_san\<lparr>Age := 151\<rparr>)) [])) = 400 \<and>
   snd (CreateStudent example_email_ok 5 (Json (zhang_san\<lparr>Age := 151\<rparr>)) []) = [] \<and>
   ''Age'' \<notin> fst ` set (validate example_email_ok (zhang_san\<lparr>Age := 1\<rparr>)) \<and>
   ''Age'' \<notin> fst ` set (validate example_email_ok (zhang_san\<lparr>Age := 150\<rparr>)) \<and>
   status (fst (CreateStudent example_email_ok 5 (Json (zhang_san\<lparr>Age := 1\<rparr>)) [])) = 201 \<and>
   status (fst (CreateStudent example_email_ok 5 (Json (zhang_san\<lparr>Age := 150\<rparr>)) [])) = 201"
proof -
  have a0: "Age (zhang_san\<lparr>Age := 0\<rparr>) < 1 \<or> 150 < Age (zhang_san\<lparr>Age := 0\<rparr>)" by simp
  have a151: "Age (zhang_san\<lparr>Age := 151\<rparr>) < 1 \<or> 150 < Age (zhang_san\<lparr>Age := 151\<rparr>)" by simp
  have a1: "1 \<le> Age (zhang_san\<lparr>Age := 1\<rparr>) \<and> Age (zhang_san\<lparr>Age := 1\<rparr>) \<le> 150" by simp
  have a150: "1 \<le> Age (zhang_san\<lparr>Age := 150\<rparr>) \<and> Age (zhang_san\<lparr>Age := 150\<rparr>) \<le> 150" by simp
  have d: "DeletedAt zhang_san = None" by (simp add: zhang_san_def)
  have v1: "validate example_email_ok (zhang_san\<lparr>Age := 1\<rparr>) = []"
    by (simp add: validate_def check_required_def check_Age_def check_Gender_def check_Email_def
        zhang_san_def example_email_ok_def gender_male_def)
  have v150: "validate example_email_ok (zhang_san\<lparr>Age := 150\<rparr>) = []"
    by (simp add: validate_def check_required_def check_Age_def check_Gender_def check_Email_def
        zhang_san_def example_email_ok_def gender_male_def)
  have c1: "status (fst (CreateStudent example_email_ok 5 (Json (zhang_san\<lparr>Age := 1\<rparr>)) [])) = 201"
    by (simp add: eval_defs example_defs)
  have c150: "status (fst (CreateStudent example_email_ok 5 (Json (zhang_san\<lparr>Age := 150\<rparr>)) [])) = 201"
    by (simp add: eval_defs example_defs)
  show ?thesis
    using age_bounds_inclusive [of "zhang_san\<lparr>Age := 0\<rparr>" example_email_ok 5 "[]"]
      age_bounds_inclusive [of "zhang_san\<lparr>Age := 151\<rparr>" example_email_ok 5 "[]"]
      age_bounds_inclusive [of "zhang_san\<lparr>Age := 1\<rparr>" example_email_ok 5 "[]"]
      age_bounds_inclusive [of "zhang_san\<lparr>Age := 150\<rparr>" example_email_ok 5 "[]"]
      a0 a151 a1 a150 d c1 c150 v1 v150
    by simp
qed

text \<open>
  C8. The only \<open>binding\<close> tag on \<open>Name\<close> is \<open>required\<close>, and the \<open>size:100\<close> of the
  \<open>gorm\<close> tag is no constraint of the table: a create whose name has 101 characters
  answers 201 and the record is stored with that name.
\<close>

theorem create_long_name_is_stored:
  "length (replicate 101 (CHR ''a'')) = 101 \<and>
   CreateStudent example_email_ok 5 (Json (zhang_san\<lparr>Name := replicate 101 (CHR ''a'')\<rparr>)) [] =
     (\<lparr>status = 201,
       body = StudentData (Some ''Student created successfully'')
                (stored_zhang_san\<lparr>Name := replicate 101 (CHR ''a'')\<rparr>)\<rparr>,
      [stored_zhang_san\<lparr>Name := replicate 101 (CHR ''a'')\<rparr>])"
  by (simp add: eval_defs example_defs)

section \<open>Create and the constraints of the table\<close>


lemma db_Create_Inr:
  assumes "db_Create now rows s = Inr (s', rows')"
  shows "s' = s\<lparr>ID := (if ID s = 0 then next_id rows else ID s),
            CreatedAt := (if CreatedAt s = 0 then now else CreatedAt s),
            UpdatedAt := (if UpdatedAt s = 0 then now else UpdatedAt s)\<rparr> \<and>
     rows' = rows @ [s']"
proof -
  define s0 where "s0 = s\<lparr>ID := (if ID s = 0 then next_id rows else ID s),
            CreatedAt := (if CreatedAt s = 0 then now else CreatedAt s),
            UpdatedAt := (if UpdatedAt s = 0 then now else UpdatedAt s)\<rparr>"
  have eq: "db_Create now rows s =
      (if list_ex (\<lambda>r. ID r = ID s0) rows then Inl (ErrUniqueConstraint ''students.id'')
       else if list_ex (\<lambda>r. Email r = Email s0) rows
         then Inl (ErrUniqueConstraint ''students.email'')
       else Inr (s0, rows @ [s0]))"
    unfolding db_Create_def Let_def s0_def by (rule refl)
  have "s' = s0 \<and> rows' = rows @ [s0]"
    using assms unfolding eq by (auto split: if_splits)
  then show ?thesis unfolding s0_def by blast
qed

lemma db_Create_id_nonzero:
  assumes "db_Create now rows s = Inr (s', rows')"
  shows "ID s' \<noteq> 0"
proof -
  have "ID s' = (if ID s = 0 then next_id rows else ID s)"
    using db_Create_Inr [OF assms] by simp
  then show ?thesis by (simp add: next_id_def)
qed




lemma db_Create_duplicate_email:
  assumes "\<exists>r\<in>set rows. Email r = Email s"
  shows "\<exists>e. db_Create now rows s = Inl e"
proof -
  have "list_ex (\<lambda>r. Email r = Email s) rows" using assms by (simp add: list_ex_iff)
  then show ?thesis by (simp add: db_Create_def Let_def)
qed

text \<open>
  C2, as the code has it. The unique index on \<open>email\<close> spans every row of the table, the
  soft-deleted ones included: for every body that passes binding and whose email is the
  email of any stored row, live or soft-deleted, the create is refused (the answer is not
  201) and the table is unchanged.
\<close>

theorem email_unique_over_all_rows:
  assumes "ShouldBindJSON email_ok b = Inr s" and "\<exists>r\<in>set rows. Email r = Email s"
  shows "status (fst (CreateStudent email_ok now b rows)) \<noteq> 201 \<and>
         snd (CreateStudent email_ok now b rows) = rows"
proof -
  from db_Create_duplicate_email [OF assms(2)] obtain e where "db_Create now rows s = Inl e"
    by blast
  then show ?thesis using assms(1) by (simp add: CreateStudent_def)
qed

theorem email_unique_over_all_rows_witness:
  "ShouldBindJSON example_email_ok (Json zhang_san) = Inr zhang_san \<and>
   (\<exists>r\<in>set [stored_zhang_san\<lparr>DeletedAt := Some 7\<rparr>]. Email r = Email zhang_san) \<and>
   status (fst (CreateStudent example_email_ok 9 (Json zhang_san)
                  [stored_zhang_san\<lparr>DeletedAt := Some 7\<rparr>])) \<noteq> 201 \<and>
   snd (CreateStudent example_email_ok 9 (Json zhang_san) [stored_zhang_san\<lparr>DeletedAt := Some 7\<rparr>]) =
     [stored_zhang_san\<lparr>DeletedAt := Some 7\<rparr>]"
proof -
  have h1: "ShouldBindJSON example_email_ok (Json zhang_san) = Inr zhang_san"
    by (simp add: eval_defs example_defs)
  have h2: "\<exists>r\<in>set [stored_zhang_san\<lparr>DeletedAt := Some 7\<rparr>]. Email r = Email zhang_san"
    by (simp add: example_defs)
  show ?thesis using h1 h2 email_unique_over_all_rows [OF h1 h2, of 9] by simp
qed

text \<open>
  C2 as stated fails: with the only row of that email soft-deleted at time 7, the create
  does not succeed; it answers 500 and stores nothing.
\<close>

theorem soft_deleted_email_blocks_create_counterexample:
  "CreateStudent example_email_ok 9 (Json zhang_san) [stored_zhang_san\<lparr>DeletedAt := Some 7\<rparr>] =
     (\<lparr>status = 500,
       body = ErrorBody ''Failed to create student''
                (Some (DbFailure (ErrUniqueConstraint ''students.email'')))\<rparr>,
      [stored_zhang_san\<lparr>DeletedAt := Some 7\<rparr>])"
  by (simp add: eval_defs example_defs)

text \<open>
  C1. The handler answers every error of \<open>db.Create\<close> with 500: a create whose email
  is that of the live record 1 gets 500 "Failed to create student" with the failure of the
  unique index as its message, not a 400 naming the field \<open>email\<close>.
\<close>

theorem create_duplicate_live_email_is_500:
  "CreateStudent example_email_ok 9 (Json zhang_san) [stored_zhang_san] =
     (\<lparr>status = 500,
       body = ErrorBody ''Failed to create student''
                (Some (DbFailure (ErrUniqueConstraint ''students.email'')))\<rparr>,
      [stored_zhang_san])"
  by (simp add: eval_defs example_defs)

section \<open>Search\<close>




lemma ci_prefix_iff:
  "ci_prefix a s = (\<exists>q. map ascii_lower s = map ascii_lower a @ q)"
  by (induction a s rule: ci_prefix.induct) auto

lemma ci_contains_iff:
  "ci_contains a s = (\<exists>p q. map ascii_lower s = p @ map ascii_lower a @ q)"
proof (induction s)
  case Nil
  then show ?case by auto
next
  case (Cons c cs)
  note IH = Cons.IH
  show ?case
  proof
    assume "ci_contains a (c # cs)"
    then consider "ci_prefix a (c # cs)" | "ci_contains a cs" by auto
    then show "\<exists>p q. map ascii_lower (c # cs) = p @ map ascii_lower a @ q"
    proof cases
      case 1
      then obtain q where "map ascii_lower (c # cs) = map ascii_lower a @ q"
        using ci_prefix_iff by blast
      then have "map ascii_lower (c # cs) = [] @ map ascii_lower a @ q" by simp
      then show ?thesis by blast
    next
      case 2
      then obtain p q where "map ascii_lower cs = p @ map ascii_lower a @ q"
        using IH by blast
      then have "map ascii_lower (c # cs) = (ascii_lower c # p) @ map ascii_lower a @ q" by simp
      then show ?thesis by blast
    qed
  next
    assume "\<exists>p q. map ascii_lower (c # cs) = p @ map ascii_lower a @ q"
    then obtain p q where pq: "map ascii_lower (c # cs) = p @ map ascii_lower a @ q" by blast
    show "ci_contains a (c # cs)"
    proof (cases p)
      case Nil
      then have "ci_prefix a (c # cs)" using pq ci_prefix_iff [of a "c # cs"] by auto
      then show ?thesis by simp
    next
      case (Cons y ys)
      then have "map ascii_lower cs = ys @ map ascii_lower a @ q" using pq by simp
      then have "ci_contains a cs" using IH by blast
      then show ?thesis by simp
    qed
  qed
qed




end
